theory Spec2Isabelle
  imports Main "HOL-Library.Sublist"
begin

section \<open>Data model\<close>

text \<open>
  The three validated facets of a request. The constructors are the tags of
  \<^verbatim>\<open>ErrorListItem.type\<close> (\<^verbatim>\<open>"Query" | "Params" | "Body"\<close>, index.ts line 68).
\<close>

datatype slot = Params | Query | Body

text \<open>
  What \<^verbatim>\<open>safeParse\<close> returns: \<^verbatim>\<open>{success: true, data}\<close> or
  \<^verbatim>\<open>{success: false, error}\<close>. Values are of an arbitrary type \<open>'v\<close>, native
  validation errors of an arbitrary type \<open>'e\<close>.
\<close>

datatype ('v, 'e) SafeParseReturn = SafeParseSuccess 'v | SafeParseError 'e

text \<open>
  A schema is an opaque validator: the middleware only calls its two parse methods.
  \<open>safeParseAsync\<close> gives the value its promise is fulfilled with.
\<close>

record ('v, 'e) ZodSchema =
  safeParse :: "'v \<Rightarrow> ('v, 'e) SafeParseReturn"
  safeParseAsync :: "'v \<Rightarrow> ('v, 'e) SafeParseReturn"

text \<open>\<^verbatim>\<open>RequestValidation\<close> / \<^verbatim>\<open>RequestProcessing\<close>: three optional schemas.\<close>

record ('v, 'e) RequestValidation =
  params :: "('v, 'e) ZodSchema option"
  query :: "('v, 'e) ZodSchema option"
  body :: "('v, 'e) ZodSchema option"

record 'e ErrorListItem =
  type :: slot
  errors :: 'e

text \<open>The three error classes of \<^verbatim>\<open>src/errors\<close>, each carrying \<^verbatim>\<open>zodError\<close>.\<close>

datatype 'e thrown = InvalidParamsError 'e | InvalidQueryError 'e | InvalidBodyError 'e

text \<open>The fields of the Express request that the middleware reads and writes.\<close>

record 'v Request =
  req_params :: 'v
  req_query :: 'v
  req_body :: 'v

text \<open>
  The Express response: its status code and what has been sent, if anything.
\<close>

datatype ('v, 'e) sent_body = ErrorItems "'e ErrorListItem list" | Value 'v

record ('v, 'e) Response =
  statusCode :: nat
  sent :: "('v, 'e) sent_body option"

definition status :: "nat \<Rightarrow> ('v, 'e) Response \<Rightarrow> ('v, 'e) Response" where
  "status code res = res\<lparr>statusCode := code\<rparr>"

definition send :: "('v, 'e) sent_body \<Rightarrow> ('v, 'e) Response \<Rightarrow> ('v, 'e) Response" where
  "send b res = res\<lparr>sent := Some b\<rparr>"

text \<open>
  \<^verbatim>\<open>Options\<close>: every field is optional. A custom \<^verbatim>\<open>sendErrors\<close> callback is an
  arbitrary action on the response.
\<close>

record ('v, 'e) Options =
  passErrorToNext :: "bool option"
  throwErrors :: "bool option"
  sendErrors :: "('e ErrorListItem list \<Rightarrow> ('v, 'e) Response \<Rightarrow> ('v, 'e) Response) option"


section \<open>Effects\<close>

text \<open>
  A middleware acts on the request and the response and calls its collaborators: the
  parse methods of the schemas, the continuation \<^verbatim>\<open>next\<close>, the built-in responder
  \<^verbatim>\<open>sendErrors\<close> and the callback \<^verbatim>\<open>options.sendErrors\<close>. The calls are logged in
  the order in which they are made, each with its argument.
\<close>

datatype ('v, 'e) call =
    SafeParse slot 'v
  | SafeParseAsync slot 'v
  | Next "'e ErrorListItem list option"
  | SendErrors "'e ErrorListItem list"
  | OptionsSendErrors "'e ErrorListItem list"

record ('v, 'e) world =
  req :: "'v Request"
  res :: "('v, 'e) Response"
  calls :: "('v, 'e) call list"

text \<open>
  A block of a middleware body either throws (\<open>Inl\<close>) or completes with a value
  (\<open>Inr\<close>); the world it leaves behind is returned in both cases, since what was
  written before a \<^verbatim>\<open>throw\<close> stays written.
\<close>

type_synonym ('v, 'e, 'a) action = "('v, 'e) world \<Rightarrow> ('e thrown + 'a) \<times> ('v, 'e) world"

definition andThen :: "('v, 'e, 'a) action \<Rightarrow> ('a \<Rightarrow> ('v, 'e, 'b) action) \<Rightarrow> ('v, 'e, 'b) action" where
  "andThen m f w = (case m w of (Inl x, w') \<Rightarrow> (Inl x, w') | (Inr a, w') \<Rightarrow> f a w')"

definition called :: "('v, 'e) call \<Rightarrow> ('v, 'e) world \<Rightarrow> ('v, 'e) world" where
  "called c w = w\<lparr>calls := calls w @ [c]\<rparr>"

text \<open>JavaScript truthiness of an optional boolean: \<^verbatim>\<open>undefined\<close> is falsy.\<close>

definition truthy :: "bool option \<Rightarrow> bool" where
  "truthy b = (case b of None \<Rightarrow> False | Some v \<Rightarrow> v)"

text \<open>The default parameter \<^verbatim>\<open>options = {}\<close>.\<close>

definition defaultOptions :: "('v, 'e) Options option \<Rightarrow> ('v, 'e) Options" where
  "defaultOptions opts =
     (case opts of
        None \<Rightarrow> \<lparr>passErrorToNext = None, throwErrors = None, sendErrors = None\<rparr>
      | Some options \<Rightarrow> options)"

text \<open>
  The built-in responder (index.ts lines 70-72):
  \<^verbatim>\<open>res.status(400).send(errors.map((error) => ({ type: error.type, errors: error.errors })))\<close>
\<close>

definition sendErrors :: "'e ErrorListItem list \<Rightarrow> ('v, 'e) Response \<Rightarrow> ('v, 'e) Response" where
  "sendErrors errs response =
     send (ErrorItems (map (\<lambda>error. \<lparr>type = type error, errors = errors error\<rparr>) errs)) (status 400 response)"

definition call_sendErrors :: "'e ErrorListItem list \<Rightarrow> ('v, 'e) world \<Rightarrow> ('v, 'e) world" where
  "call_sendErrors errs w = called (SendErrors errs) (w\<lparr>res := sendErrors errs (res w)\<rparr>)"

definition call_callback ::
  "('e ErrorListItem list \<Rightarrow> ('v, 'e) Response \<Rightarrow> ('v, 'e) Response) \<Rightarrow> 'e ErrorListItem list \<Rightarrow> ('v, 'e) world \<Rightarrow> ('v, 'e) world" where
  "call_callback callback errs w = called (OptionsSendErrors errs) (w\<lparr>res := callback errs (res w)\<rparr>)"

definition call_next :: "'e ErrorListItem list option \<Rightarrow> ('v, 'e) world \<Rightarrow> ('v, 'e) world" where
  "call_next arg w = called (Next arg) w"

text \<open>
  An \<^verbatim>\<open>async\<close> function returns a promise: a \<^verbatim>\<open>throw\<close> in its body rejects the
  promise, a \<^verbatim>\<open>return\<close> fulfils it.
\<close>

datatype 'x Promise = Fulfilled | Rejected 'x

definition async :: "('v, 'e, unit) action \<Rightarrow> ('v, 'e) world \<Rightarrow> 'e thrown Promise \<times> ('v, 'e) world" where
  "async m w = (case m w of (Inl x, w') \<Rightarrow> (Rejected x, w') | (Inr u, w') \<Rightarrow> (Fulfilled, w'))"

section \<open>\<^verbatim>\<open>processRequest\<close> (index.ts lines 175-222)\<close>

text \<open>The body of the middleware, block by block: the three slots, then the dispatch on the accumulated errors.\<close>

definition processRequest_params ::
  "('v, 'e) RequestValidation \<Rightarrow> ('v, 'e) Options \<Rightarrow> 'e ErrorListItem list \<Rightarrow> ('v, 'e, 'e ErrorListItem list) action" where
  "processRequest_params schemas options errs w =
     (case params schemas of
        None \<Rightarrow> (Inr errs, w)
      | Some schema \<Rightarrow>
          (let w1 = called (SafeParse Params (req_params (req w))) w in
           case safeParse schema (req_params (req w)) of
             SafeParseSuccess data \<Rightarrow> (Inr errs, w1\<lparr>req := (req w1)\<lparr>req_params := data\<rparr>\<rparr>)
           | SafeParseError error \<Rightarrow>
               if truthy (throwErrors options) then (Inl (InvalidParamsError error), w1)
               else (Inr (errs @ [\<lparr>type = Params, errors = error\<rparr>]), w1)))"

definition processRequest_query ::
  "('v, 'e) RequestValidation \<Rightarrow> ('v, 'e) Options \<Rightarrow> 'e ErrorListItem list \<Rightarrow> ('v, 'e, 'e ErrorListItem list) action" where
  "processRequest_query schemas options errs w =
     (case query schemas of
        None \<Rightarrow> (Inr errs, w)
      | Some schema \<Rightarrow>
          (let w1 = called (SafeParse Query (req_query (req w))) w in
           case safeParse schema (req_query (req w)) of
             SafeParseSuccess data \<Rightarrow> (Inr errs, w1\<lparr>req := (req w1)\<lparr>req_query := data\<rparr>\<rparr>)
           | SafeParseError error \<Rightarrow>
               if truthy (throwErrors options) then (Inl (InvalidQueryError error), w1)
               else (Inr (errs @ [\<lparr>type = Query, errors = error\<rparr>]), w1)))"

definition processRequest_body ::
  "('v, 'e) RequestValidation \<Rightarrow> ('v, 'e) Options \<Rightarrow> 'e ErrorListItem list \<Rightarrow> ('v, 'e, 'e ErrorListItem list) action" where
  "processRequest_body schemas options errs w =
     (case body schemas of
        None \<Rightarrow> (Inr errs, w)
      | Some schema \<Rightarrow>
          (let w1 = called (SafeParse Body (req_body (req w))) w in
           case safeParse schema (req_body (req w)) of
             SafeParseSuccess data \<Rightarrow> (Inr errs, w1\<lparr>req := (req w1)\<lparr>req_body := data\<rparr>\<rparr>)
           | SafeParseError error \<Rightarrow>
               if truthy (throwErrors options) then (Inl (InvalidBodyError error), w1)
               else (Inr (errs @ [\<lparr>type = Body, errors = error\<rparr>]), w1)))"

text \<open>
  Lines 214-219: the branch taken when \<^verbatim>\<open>options.sendErrors\<close> is given and the other
  branch both are \<^verbatim>\<open>return sendErrors(errors, res)\<close>, the built-in responder.
\<close>

definition processRequest_respond ::
  "('v, 'e) Options \<Rightarrow> 'e ErrorListItem list \<Rightarrow> ('v, 'e, unit) action" where
  "processRequest_respond options errs w =
     (if length errs > 0 \<and> truthy (passErrorToNext options) then (Inr (), call_next (Some errs) w)
      else if length errs > 0 then
             (case Options.sendErrors options of
                Some callback \<Rightarrow> (Inr (), call_sendErrors errs w)
              | None \<Rightarrow> (Inr (), call_sendErrors errs w))
      else (Inr (), call_next None w))"

text \<open>The three slot blocks in sequence, starting from \<^verbatim>\<open>errors = []\<close>, give the accumulator.\<close>

definition processRequest_check ::
  "('v, 'e) RequestValidation \<Rightarrow> ('v, 'e) Options \<Rightarrow> ('v, 'e, 'e ErrorListItem list) action" where
  "processRequest_check schemas options =
     andThen (processRequest_params schemas options [])
       (\<lambda>errs. andThen (processRequest_query schemas options errs)
          (\<lambda>errs. processRequest_body schemas options errs))"

definition processRequest_middleware ::
  "('v, 'e) RequestValidation \<Rightarrow> ('v, 'e) Options \<Rightarrow> ('v, 'e, unit) action" where
  "processRequest_middleware schemas options =
     andThen (processRequest_check schemas options) (\<lambda>errs. processRequest_respond options errs)"

definition processRequest ::
  "('v, 'e) RequestValidation \<Rightarrow> ('v, 'e) Options option \<Rightarrow> ('v, 'e, unit) action" where
  "processRequest schemas opts = processRequest_middleware schemas (defaultOptions opts)"

section \<open>\<^verbatim>\<open>processRequestAsync\<close> (index.ts lines 232-279)\<close>

text \<open>The body of the middleware, block by block: the three slots, then the dispatch on the accumulated errors.\<close>

definition processRequestAsync_params ::
  "('v, 'e) RequestValidation \<Rightarrow> ('v, 'e) Options \<Rightarrow> 'e ErrorListItem list \<Rightarrow> ('v, 'e, 'e ErrorListItem list) action" where
  "processRequestAsync_params schemas options errs w =
     (case params schemas of
        None \<Rightarrow> (Inr errs, w)
      | Some schema \<Rightarrow>
          (let w1 = called (SafeParseAsync Params (req_params (req w))) w in
           case safeParseAsync schema (req_params (req w)) of
             SafeParseSuccess data \<Rightarrow> (Inr errs, w1\<lparr>req := (req w1)\<lparr>req_params := data\<rparr>\<rparr>)
           | SafeParseError error \<Rightarrow>
               if truthy (throwErrors options) then (Inl (InvalidParamsError error), w1)
               else (Inr (errs @ [\<lparr>type = Params, errors = error\<rparr>]), w1)))"

definition processRequestAsync_query ::
  "('v, 'e) RequestValidation \<Rightarrow> ('v, 'e) Options \<Rightarrow> 'e ErrorListItem list \<Rightarrow> ('v, 'e, 'e ErrorListItem list) action" where
  "processRequestAsync_query schemas options errs w =
     (case query schemas of
        None \<Rightarrow> (Inr errs, w)
      | Some schema \<Rightarrow>
          (let w1 = called (SafeParseAsync Query (req_query (req w))) w in
           case safeParseAsync schema (req_query (req w)) of
             SafeParseSuccess data \<Rightarrow> (Inr errs, w1\<lparr>req := (req w1)\<lparr>req_query := data\<rparr>\<rparr>)
           | SafeParseError error \<Rightarrow>
               if truthy (throwErrors options) then (Inl (InvalidQueryError error), w1)
               else (Inr (errs @ [\<lparr>type = Query, errors = error\<rparr>]), w1)))"

definition processRequestAsync_body ::
  "('v, 'e) RequestValidation \<Rightarrow> ('v, 'e) Options \<Rightarrow> 'e ErrorListItem list \<Rightarrow> ('v, 'e, 'e ErrorListItem list) action" where
  "processRequestAsync_body schemas options errs w =
     (case body schemas of
        None \<Rightarrow> (Inr errs, w)
      | Some schema \<Rightarrow>
          (let w1 = called (SafeParseAsync Body (req_body (req w))) w in
           case safeParseAsync schema (req_body (req w)) of
             SafeParseSuccess data \<Rightarrow> (Inr errs, w1\<lparr>req := (req w1)\<lparr>req_body := data\<rparr>\<rparr>)
           | SafeParseError error \<Rightarrow>
               if truthy (throwErrors options) then (Inl (InvalidBodyError error), w1)
               else (Inr (errs @ [\<lparr>type = Body, errors = error\<rparr>]), w1)))"

text \<open>
  Lines 271-276: the branch taken when \<^verbatim>\<open>options.sendErrors\<close> is given and the other
  branch both are \<^verbatim>\<open>return sendErrors(errors, res)\<close>, the built-in responder.
\<close>

definition processRequestAsync_respond ::
  "('v, 'e) Options \<Rightarrow> 'e ErrorListItem list \<Rightarrow> ('v, 'e, unit) action" where
  "processRequestAsync_respond options errs w =
     (if length errs > 0 \<and> truthy (passErrorToNext options) then (Inr (), call_next (Some errs) w)
      else if length errs > 0 then
             (case Options.sendErrors options of
                Some callback \<Rightarrow> (Inr (), call_sendErrors errs w)
              | None \<Rightarrow> (Inr (), call_sendErrors errs w))
      else (Inr (), call_next None w))"

text \<open>The three slot blocks in sequence, starting from \<^verbatim>\<open>errors = []\<close>, give the accumulator.\<close>

definition processRequestAsync_check ::
  "('v, 'e) RequestValidation \<Rightarrow> ('v, 'e) Options \<Rightarrow> ('v, 'e, 'e ErrorListItem list) action" where
  "processRequestAsync_check schemas options =
     andThen (processRequestAsync_params schemas options [])
       (\<lambda>errs. andThen (processRequestAsync_query schemas options errs)
          (\<lambda>errs. processRequestAsync_body schemas options errs))"

definition processRequestAsync_middleware ::
  "('v, 'e) RequestValidation \<Rightarrow> ('v, 'e) Options \<Rightarrow> ('v, 'e, unit) action" where
  "processRequestAsync_middleware schemas options =
     andThen (processRequestAsync_check schemas options) (\<lambda>errs. processRequestAsync_respond options errs)"

definition processRequestAsync ::
  "('v, 'e) RequestValidation \<Rightarrow> ('v, 'e) Options option \<Rightarrow> ('v, 'e) world \<Rightarrow> 'e thrown Promise \<times> ('v, 'e) world" where
  "processRequestAsync schemas opts = async (processRequestAsync_middleware schemas (defaultOptions opts))"

section \<open>\<^verbatim>\<open>validateRequest\<close> (index.ts lines 325-372)\<close>

text \<open>The body of the middleware, block by block: the three slots, then the dispatch on the accumulated errors.\<close>

definition validateRequest_params ::
  "('v, 'e) RequestValidation \<Rightarrow> ('v, 'e) Options \<Rightarrow> 'e ErrorListItem list \<Rightarrow> ('v, 'e, 'e ErrorListItem list) action" where
  "validateRequest_params schemas options errs w =
     (case params schemas of
        None \<Rightarrow> (Inr errs, w)
      | Some schema \<Rightarrow>
          (let w1 = called (SafeParse Params (req_params (req w))) w in
           case safeParse schema (req_params (req w)) of
             SafeParseSuccess data \<Rightarrow> (Inr errs, w1)
           | SafeParseError error \<Rightarrow>
               if truthy (throwErrors options) then (Inl (InvalidParamsError error), w1)
               else (Inr (errs @ [\<lparr>type = Params, errors = error\<rparr>]), w1)))"

definition validateRequest_query ::
  "('v, 'e) RequestValidation \<Rightarrow> ('v, 'e) Options \<Rightarrow> 'e ErrorListItem list \<Rightarrow> ('v, 'e, 'e ErrorListItem list) action" where
  "validateRequest_query schemas options errs w =
     (case query schemas of
        None \<Rightarrow> (Inr errs, w)
      | Some schema \<Rightarrow>
          (let w1 = called (SafeParse Query (req_query (req w))) w in
           case safeParse schema (req_query (req w)) of
             SafeParseSuccess data \<Rightarrow> (Inr errs, w1)
           | SafeParseError error \<Rightarrow>
               if truthy (throwErrors options) then (Inl (InvalidQueryError error), w1)
               else (Inr (errs @ [\<lparr>type = Query, errors = error\<rparr>]), w1)))"

definition validateRequest_body ::
  "('v, 'e) RequestValidation \<Rightarrow> ('v, 'e) Options \<Rightarrow> 'e ErrorListItem list \<Rightarrow> ('v, 'e, 'e ErrorListItem list) action" where
  "validateRequest_body schemas options errs w =
     (case body schemas of
        None \<Rightarrow> (Inr errs, w)
      | Some schema \<Rightarrow>
          (let w1 = called (SafeParse Body (req_body (req w))) w in
           case safeParse schema (req_body (req w)) of
             SafeParseSuccess data \<Rightarrow> (Inr errs, w1)
           | SafeParseError error \<Rightarrow>
               if truthy (throwErrors options) then (Inl (InvalidBodyError error), w1)
               else (Inr (errs @ [\<lparr>type = Body, errors = error\<rparr>]), w1)))"

text \<open>
  Lines 365-370: \<^verbatim>\<open>options.sendErrors(errors, res)\<close> when the callback is given, the
  built-in \<^verbatim>\<open>sendErrors(errors, res)\<close> otherwise.
\<close>

definition validateRequest_respond ::
  "('v, 'e) Options \<Rightarrow> 'e ErrorListItem list \<Rightarrow> ('v, 'e, unit) action" where
  "validateRequest_respond options errs w =
     (if length errs > 0 \<and> truthy (passErrorToNext options) then (Inr (), call_next (Some errs) w)
      else if length errs > 0 then
             (case Options.sendErrors options of
                Some callback \<Rightarrow> (Inr (), call_callback callback errs w)
              | None \<Rightarrow> (Inr (), call_sendErrors errs w))
      else (Inr (), call_next None w))"

text \<open>The three slot blocks in sequence, starting from \<^verbatim>\<open>errors = []\<close>, give the accumulator.\<close>

definition validateRequest_check ::
  "('v, 'e) RequestValidation \<Rightarrow> ('v, 'e) Options \<Rightarrow> ('v, 'e, 'e ErrorListItem list) action" where
  "validateRequest_check schemas options =
     andThen (validateRequest_params schemas options [])
       (\<lambda>errs. andThen (validateRequest_query schemas options errs)
          (\<lambda>errs. validateRequest_body schemas options errs))"

definition validateRequest_middleware ::
  "('v, 'e) RequestValidation \<Rightarrow> ('v, 'e) Options \<Rightarrow> ('v, 'e, unit) action" where
  "validateRequest_middleware schemas options =
     andThen (validateRequest_check schemas options) (\<lambda>errs. validateRequest_respond options errs)"

definition validateRequest ::
  "('v, 'e) RequestValidation \<Rightarrow> ('v, 'e) Options option \<Rightarrow> ('v, 'e, unit) action" where
  "validateRequest schemas opts = validateRequest_middleware schemas (defaultOptions opts)"

section \<open>\<^verbatim>\<open>validateRequestAsync\<close> (index.ts lines 374-421)\<close>

text \<open>The body of the middleware, block by block: the three slots, then the dispatch on the accumulated errors.\<close>

definition validateRequestAsync_params ::
  "('v, 'e) RequestValidation \<Rightarrow> ('v, 'e) Options \<Rightarrow> 'e ErrorListItem list \<Rightarrow> ('v, 'e, 'e ErrorListItem list) action" where
  "validateRequestAsync_params schemas options errs w =
     (case params schemas of
        None \<Rightarrow> (Inr errs, w)
      | Some schema \<Rightarrow>
          (let w1 = called (SafeParseAsync Params (req_params (req w))) w in
           case safeParseAsync schema (req_params (req w)) of
             SafeParseSuccess data \<Rightarrow> (Inr errs, w1)
           | SafeParseError error \<Rightarrow>
               if truthy (throwErrors options) then (Inl (InvalidParamsError error), w1)
               else (Inr (errs @ [\<lparr>type = Params, errors = error\<rparr>]), w1)))"

definition validateRequestAsync_query ::
  "('v, 'e) RequestValidation \<Rightarrow> ('v, 'e) Options \<Rightarrow> 'e ErrorListItem list \<Rightarrow> ('v, 'e, 'e ErrorListItem list) action" where
  "validateRequestAsync_query schemas options errs w =
     (case query schemas of
        None \<Rightarrow> (Inr errs, w)
      | Some schema \<Rightarrow>
          (let w1 = called (SafeParseAsync Query (req_query (req w))) w in
           case safeParseAsync schema (req_query (req w)) of
             SafeParseSuccess data \<Rightarrow> (Inr errs, w1)
           | SafeParseError error \<Rightarrow>
               if truthy (throwErrors options) then (Inl (InvalidQueryError error), w1)
               else (Inr (errs @ [\<lparr>type = Query, errors = error\<rparr>]), w1)))"

definition validateRequestAsync_body ::
  "('v, 'e) RequestValidation \<Rightarrow> ('v, 'e) Options \<Rightarrow> 'e ErrorListItem list \<Rightarrow> ('v, 'e, 'e ErrorListItem list) action" where
  "validateRequestAsync_body schemas options errs w =
     (case body schemas of
        None \<Rightarrow> (Inr errs, w)
      | Some schema \<Rightarrow>
          (let w1 = called (SafeParseAsync Body (req_body (req w))) w in
           case safeParseAsync schema (req_body (req w)) of
             SafeParseSuccess data \<Rightarrow> (Inr errs, w1)
           | SafeParseError error \<Rightarrow>
               if truthy (throwErrors options) then (Inl (InvalidBodyError error), w1)
               else (Inr (errs @ [\<lparr>type = Body, errors = error\<rparr>]), w1)))"

text \<open>
  Lines 414-419: \<^verbatim>\<open>options.sendErrors(errors, res)\<close> when the callback is given, the
  built-in \<^verbatim>\<open>sendErrors(errors, res)\<close> otherwise.
\<close>

definition validateRequestAsync_respond ::
  "('v, 'e) Options \<Rightarrow> 'e ErrorListItem list \<Rightarrow> ('v, 'e, unit) action" where
  "validateRequestAsync_respond options errs w =
     (if length errs > 0 \<and> truthy (passErrorToNext options) then (Inr (), call_next (Some errs) w)
      else if length errs > 0 then
             (case Options.sendErrors options of
                Some callback \<Rightarrow> (Inr (), call_callback callback errs w)
              | None \<Rightarrow> (Inr (), call_sendErrors errs w))
      else (Inr (), call_next None w))"

text \<open>The three slot blocks in sequence, starting from \<^verbatim>\<open>errors = []\<close>, give the accumulator.\<close>

definition validateRequestAsync_check ::
  "('v, 'e) RequestValidation \<Rightarrow> ('v, 'e) Options \<Rightarrow> ('v, 'e, 'e ErrorListItem list) action" where
  "validateRequestAsync_check schemas options =
     andThen (validateRequestAsync_params schemas options [])
       (\<lambda>errs. andThen (validateRequestAsync_query schemas options errs)
          (\<lambda>errs. validateRequestAsync_body schemas options errs))"

definition validateRequestAsync_middleware ::
  "('v, 'e) RequestValidation \<Rightarrow> ('v, 'e) Options \<Rightarrow> ('v, 'e, unit) action" where
  "validateRequestAsync_middleware schemas options =
     andThen (validateRequestAsync_check schemas options) (\<lambda>errs. validateRequestAsync_respond options errs)"

definition validateRequestAsync ::
  "('v, 'e) RequestValidation \<Rightarrow> ('v, 'e) Options option \<Rightarrow> ('v, 'e) world \<Rightarrow> 'e thrown Promise \<times> ('v, 'e) world" where
  "validateRequestAsync schemas opts = async (validateRequestAsync_middleware schemas (defaultOptions opts))"

section \<open>Single-purpose entry points (index.ts lines 77-165 and 281-321)\<close>

definition processRequestBody ::
  "('v, 'e) ZodSchema \<Rightarrow> ('v, 'e) Options option \<Rightarrow> ('v, 'e) world \<Rightarrow> ('e thrown + unit) \<times> ('v, 'e) world" where
  "processRequestBody schema opts = processRequest \<lparr>params = None, query = None, body = Some schema\<rparr> opts"

definition processRequestBodyAsync ::
  "('v, 'e) ZodSchema \<Rightarrow> ('v, 'e) Options option \<Rightarrow> ('v, 'e) world \<Rightarrow> 'e thrown Promise \<times> ('v, 'e) world" where
  "processRequestBodyAsync schema opts = processRequestAsync \<lparr>params = None, query = None, body = Some schema\<rparr> opts"

definition processRequestParams ::
  "('v, 'e) ZodSchema \<Rightarrow> ('v, 'e) Options option \<Rightarrow> ('v, 'e) world \<Rightarrow> ('e thrown + unit) \<times> ('v, 'e) world" where
  "processRequestParams schema opts = processRequest \<lparr>params = Some schema, query = None, body = None\<rparr> opts"

definition processRequestParamsAsync ::
  "('v, 'e) ZodSchema \<Rightarrow> ('v, 'e) Options option \<Rightarrow> ('v, 'e) world \<Rightarrow> 'e thrown Promise \<times> ('v, 'e) world" where
  "processRequestParamsAsync schema opts = processRequestAsync \<lparr>params = Some schema, query = None, body = None\<rparr> opts"

definition processRequestQuery ::
  "('v, 'e) ZodSchema \<Rightarrow> ('v, 'e) Options option \<Rightarrow> ('v, 'e) world \<Rightarrow> ('e thrown + unit) \<times> ('v, 'e) world" where
  "processRequestQuery schema opts = processRequest \<lparr>params = None, query = Some schema, body = None\<rparr> opts"

definition processRequestQueryAsync ::
  "('v, 'e) ZodSchema \<Rightarrow> ('v, 'e) Options option \<Rightarrow> ('v, 'e) world \<Rightarrow> 'e thrown Promise \<times> ('v, 'e) world" where
  "processRequestQueryAsync schema opts = processRequestAsync \<lparr>params = None, query = Some schema, body = None\<rparr> opts"

definition validateRequestBody ::
  "('v, 'e) ZodSchema \<Rightarrow> ('v, 'e) Options option \<Rightarrow> ('v, 'e) world \<Rightarrow> ('e thrown + unit) \<times> ('v, 'e) world" where
  "validateRequestBody schema opts w = validateRequest \<lparr>params = None, query = None, body = Some schema\<rparr> opts w"

definition validateRequestBodyAsync ::
  "('v, 'e) ZodSchema \<Rightarrow> ('v, 'e) Options option \<Rightarrow> ('v, 'e) world \<Rightarrow> 'e thrown Promise \<times> ('v, 'e) world" where
  "validateRequestBodyAsync schema opts w = validateRequestAsync \<lparr>params = None, query = None, body = Some schema\<rparr> opts w"

definition validateRequestParams ::
  "('v, 'e) ZodSchema \<Rightarrow> ('v, 'e) Options option \<Rightarrow> ('v, 'e) world \<Rightarrow> ('e thrown + unit) \<times> ('v, 'e) world" where
  "validateRequestParams schema opts w = validateRequest \<lparr>params = Some schema, query = None, body = None\<rparr> opts w"

definition validateRequestParamsAsync ::
  "('v, 'e) ZodSchema \<Rightarrow> ('v, 'e) Options option \<Rightarrow> ('v, 'e) world \<Rightarrow> 'e thrown Promise \<times> ('v, 'e) world" where
  "validateRequestParamsAsync schema opts w = validateRequestAsync \<lparr>params = Some schema, query = None, body = None\<rparr> opts w"

definition validateRequestQuery ::
  "('v, 'e) ZodSchema \<Rightarrow> ('v, 'e) Options option \<Rightarrow> ('v, 'e) world \<Rightarrow> ('e thrown + unit) \<times> ('v, 'e) world" where
  "validateRequestQuery schema opts w = validateRequest \<lparr>params = None, query = Some schema, body = None\<rparr> opts w"

definition validateRequestQueryAsync ::
  "('v, 'e) ZodSchema \<Rightarrow> ('v, 'e) Options option \<Rightarrow> ('v, 'e) world \<Rightarrow> 'e thrown Promise \<times> ('v, 'e) world" where
  "validateRequestQueryAsync schema opts w = validateRequestAsync \<lparr>params = None, query = Some schema, body = None\<rparr> opts w"

section \<open>Vocabulary of the specification\<close>

text \<open>The schema configured for a slot, and the request field the slot validates.\<close>

definition schema_of :: "('v, 'e) RequestValidation \<Rightarrow> slot \<Rightarrow> ('v, 'e) ZodSchema option" where
  "schema_of schemas s = (case s of Params \<Rightarrow> params schemas | Query \<Rightarrow> query schemas | Body \<Rightarrow> body schemas)"

definition field_of :: "'v Request \<Rightarrow> slot \<Rightarrow> 'v" where
  "field_of r s = (case s of Params \<Rightarrow> req_params r | Query \<Rightarrow> req_query r | Body \<Rightarrow> req_body r)"

text \<open>
  A slot fails on a request when it has a schema and the schema's parse of the slot's
  field is an error; \<open>slot_fails\<close> gives that native error. The parse method
  (\<open>safeParse\<close> or \<open>safeParseAsync\<close>) is a parameter.
\<close>

definition slot_fails ::
  "(('v, 'e) ZodSchema \<Rightarrow> 'v \<Rightarrow> ('v, 'e) SafeParseReturn) \<Rightarrow> ('v, 'e) RequestValidation \<Rightarrow> 'v Request \<Rightarrow> slot \<Rightarrow> 'e option" where
  "slot_fails parse schemas r s =
     (case schema_of schemas s of
        None \<Rightarrow> None
      | Some schema \<Rightarrow>
          (case parse schema (field_of r s) of SafeParseSuccess d \<Rightarrow> None | SafeParseError e \<Rightarrow> Some e))"

text \<open>
  The failed-slot list: one item per failed slot, in the order Params, Query, Body, each
  with the slot's native error.
\<close>

definition failed_item ::
  "(('v, 'e) ZodSchema \<Rightarrow> 'v \<Rightarrow> ('v, 'e) SafeParseReturn) \<Rightarrow> ('v, 'e) RequestValidation \<Rightarrow> 'v Request \<Rightarrow> slot \<Rightarrow> 'e ErrorListItem list" where
  "failed_item parse schemas r s =
     (case slot_fails parse schemas r s of None \<Rightarrow> [] | Some e \<Rightarrow> [\<lparr>type = s, errors = e\<rparr>])"

definition failed_slots ::
  "(('v, 'e) ZodSchema \<Rightarrow> 'v \<Rightarrow> ('v, 'e) SafeParseReturn) \<Rightarrow> ('v, 'e) RequestValidation \<Rightarrow> 'v Request \<Rightarrow> 'e ErrorListItem list" where
  "failed_slots parse schemas r =
     failed_item parse schemas r Params @ failed_item parse schemas r Query @ failed_item parse schemas r Body"

text \<open>The configured slots, in the order Params, Query, Body.\<close>

definition configured :: "('v, 'e) RequestValidation \<Rightarrow> slot list" where
  "configured schemas = filter (\<lambda>s. schema_of schemas s \<noteq> None) [Params, Query, Body]"

text \<open>
  What a slot's field holds once every successful parse has replaced its input: the
  schema's output where the slot has a schema that succeeds, the raw value otherwise.
\<close>

definition processed_field ::
  "(('v, 'e) ZodSchema \<Rightarrow> 'v \<Rightarrow> ('v, 'e) SafeParseReturn) \<Rightarrow> ('v, 'e) RequestValidation \<Rightarrow> 'v Request \<Rightarrow> slot \<Rightarrow> 'v" where
  "processed_field parse schemas r s =
     (case schema_of schemas s of
        None \<Rightarrow> field_of r s
      | Some schema \<Rightarrow>
          (case parse schema (field_of r s) of SafeParseSuccess d \<Rightarrow> d | SafeParseError e \<Rightarrow> field_of r s))"

text \<open>Reading the log: the calls a run added, the slots parsed, the arguments given to \<^verbatim>\<open>next\<close>.\<close>

definition new_calls :: "('v, 'e) world \<Rightarrow> ('v, 'e) world \<Rightarrow> ('v, 'e) call list" where
  "new_calls w w' = drop (length (calls w)) (calls w')"

fun call_slot :: "('v, 'e) call \<Rightarrow> slot list" where
  "call_slot (SafeParse s v) = [s]"
| "call_slot (SafeParseAsync s v) = [s]"
| "call_slot (Next a) = []"
| "call_slot (SendErrors es) = []"
| "call_slot (OptionsSendErrors es) = []"

definition parsed_slots :: "('v, 'e) call list \<Rightarrow> slot list" where
  "parsed_slots cs = concat (map call_slot cs)"

fun call_next_arg :: "('v, 'e) call \<Rightarrow> 'e ErrorListItem list option list" where
  "call_next_arg (Next a) = [a]"
| "call_next_arg (SafeParse s v) = []"
| "call_next_arg (SafeParseAsync s v) = []"
| "call_next_arg (SendErrors es) = []"
| "call_next_arg (OptionsSendErrors es) = []"

definition next_calls :: "('v, 'e) call list \<Rightarrow> 'e ErrorListItem list option list" where
  "next_calls cs = concat (map call_next_arg cs)"

text \<open>A settled promise read as the outcome of the function body: rejection is the throw.\<close>

fun settled :: "'x Promise \<Rightarrow> 'x + unit" where
  "settled (Rejected x) = Inl x"
| "settled Fulfilled = Inr ()"

text \<open>The log with the parse method forgotten: which slot was parsed on which input.\<close>

fun sync_call :: "('v, 'e) call \<Rightarrow> ('v, 'e) call" where
  "sync_call (SafeParseAsync s v) = SafeParse s v"
| "sync_call (SafeParse s v) = SafeParse s v"
| "sync_call (Next a) = Next a"
| "sync_call (SendErrors es) = SendErrors es"
| "sync_call (OptionsSendErrors es) = OptionsSendErrors es"

text \<open>
  The contract of \<^verbatim>\<open>throwErrors\<close>, on the outcome of a run and the calls it made:
  the first failing slot in the order Params, Query, Body decides the error raised, the
  slots after it are not parsed, and without a failing slot the run returns after
  calling \<^verbatim>\<open>next()\<close>.
\<close>

definition throwErrors_contract ::
  "(('v, 'e) ZodSchema \<Rightarrow> 'v \<Rightarrow> ('v, 'e) SafeParseReturn) \<Rightarrow> ('v, 'e) RequestValidation \<Rightarrow> 'v Request
    \<Rightarrow> 'e thrown + unit \<Rightarrow> ('v, 'e) call list \<Rightarrow> bool" where
  "throwErrors_contract parse schemas r outcome cs =
     (case slot_fails parse schemas r Params of
        Some e \<Rightarrow>
          outcome = Inl (InvalidParamsError e) \<and> Query \<notin> set (parsed_slots cs) \<and> Body \<notin> set (parsed_slots cs)
      | None \<Rightarrow>
          (case slot_fails parse schemas r Query of
             Some e \<Rightarrow> outcome = Inl (InvalidQueryError e) \<and> Body \<notin> set (parsed_slots cs)
           | None \<Rightarrow>
               (case slot_fails parse schemas r Body of
                  Some e \<Rightarrow> outcome = Inl (InvalidBodyError e)
                | None \<Rightarrow> outcome = Inr () \<and> next_calls cs = [None])))"

text \<open>
  The synchronous and the asynchronous parse of every configured schema agree on the
  request.
\<close>

definition parses_agree :: "('v, 'e) RequestValidation \<Rightarrow> 'v Request \<Rightarrow> bool" where
  "parses_agree schemas r =
     list_all (\<lambda>s. case schema_of schemas s of
                      None \<Rightarrow> True
                    | Some schema \<Rightarrow> safeParseAsync schema (field_of r s) = safeParse schema (field_of r s))
       [Params, Query, Body]"

section \<open>Example schemas and requests\<close>

datatype json = JString string | JNumber int

text \<open>\<^verbatim>\<open>z.string().min(1)\<close>: a validation that returns its input.\<close>

fun nonEmpty_parse :: "json \<Rightarrow> (json, string) SafeParseReturn" where
  "nonEmpty_parse (JString s) = (if s = [] then SafeParseError ''too_small'' else SafeParseSuccess (JString s))"
| "nonEmpty_parse (JNumber n) = SafeParseError ''invalid_type''"

definition nonEmpty :: "(json, string) ZodSchema" where
  "nonEmpty = \<lparr>safeParse = nonEmpty_parse, safeParseAsync = nonEmpty_parse\<rparr>"

text \<open>\<^verbatim>\<open>z.string().transform((s) => s.length)\<close>: a schema whose output differs from its input.\<close>

fun toLength_parse :: "json \<Rightarrow> (json, string) SafeParseReturn" where
  "toLength_parse (JString s) = SafeParseSuccess (JNumber (int (length s)))"
| "toLength_parse (JNumber n) = SafeParseError ''invalid_type''"

definition toLength :: "(json, string) ZodSchema" where
  "toLength = \<lparr>safeParse = toLength_parse, safeParseAsync = toLength_parse\<rparr>"

definition example_schemas :: "(json, string) RequestValidation" where
  "example_schemas = \<lparr>params = Some nonEmpty, query = Some toLength, body = Some nonEmpty\<rparr>"

definition query_only :: "(json, string) RequestValidation" where
  "query_only = \<lparr>params = None, query = Some toLength, body = None\<rparr>"

definition example_request :: "json Request" where
  "example_request = \<lparr>req_params = JString [], req_query = JString ''abc'', req_body = JNumber 7\<rparr>"

definition example_world :: "(json, string) world" where
  "example_world = \<lparr>req = example_request, res = \<lparr>statusCode = 200, sent = None\<rparr>, calls = []\<rparr>"

text \<open>A custom \<^verbatim>\<open>sendErrors\<close> callback: \<^verbatim>\<open>(errors, res) => res.status(422).send("rejected")\<close>.\<close>

fun reject422 :: "string ErrorListItem list \<Rightarrow> (json, string) Response \<Rightarrow> (json, string) Response" where
  "reject422 errs response = send (Value (JString ''rejected'')) (status 422 response)"

definition custom_options :: "(json, string) Options" where
  "custom_options = \<lparr>passErrorToNext = None, throwErrors = None, sendErrors = Some reject422\<rparr>"

definition forward_options :: "(json, string) Options" where
  "forward_options = \<lparr>passErrorToNext = Some True, throwErrors = Some False, sendErrors = None\<rparr>"

definition throw_options :: "(json, string) Options" where
  "throw_options = \<lparr>passErrorToNext = None, throwErrors = Some True, sendErrors = None\<rparr>"

section \<open>Auxiliary facts\<close>

lemmas vocabulary = failed_slots_def failed_item_def slot_fails_def schema_of_def field_of_def
  configured_def processed_field_def

lemma processRequest_check_accumulates:
  assumes "\<not> truthy (throwErrors options) \<or> failed_slots safeParse schemas (req w) = []"
  shows "processRequest_check schemas options w =
     (Inr (failed_slots safeParse schemas (req w)),
      w\<lparr>req := \<lparr>req_params = processed_field safeParse schemas (req w) Params,
                 req_query = processed_field safeParse schemas (req w) Query,
                 req_body = processed_field safeParse schemas (req w) Body\<rparr>,
        calls := calls w @ map (\<lambda>s. SafeParse s (field_of (req w) s)) (configured schemas)\<rparr>)"
  using assms
  by (auto simp add: processRequest_check_def processRequest_params_def processRequest_query_def
      processRequest_body_def andThen_def called_def vocabulary Let_def
      split: option.splits SafeParseReturn.splits)

lemma processRequestAsync_check_accumulates:
  assumes "\<not> truthy (throwErrors options) \<or> failed_slots safeParseAsync schemas (req w) = []"
  shows "processRequestAsync_check schemas options w =
     (Inr (failed_slots safeParseAsync schemas (req w)),
      w\<lparr>req := \<lparr>req_params = processed_field safeParseAsync schemas (req w) Params,
                 req_query = processed_field safeParseAsync schemas (req w) Query,
                 req_body = processed_field safeParseAsync schemas (req w) Body\<rparr>,
        calls := calls w @ map (\<lambda>s. SafeParseAsync s (field_of (req w) s)) (configured schemas)\<rparr>)"
  using assms
  by (auto simp add: processRequestAsync_check_def processRequestAsync_params_def processRequestAsync_query_def
      processRequestAsync_body_def andThen_def called_def vocabulary Let_def
      split: option.splits SafeParseReturn.splits)

lemma validateRequest_check_accumulates:
  assumes "\<not> truthy (throwErrors options) \<or> failed_slots safeParse schemas (req w) = []"
  shows "validateRequest_check schemas options w =
     (Inr (failed_slots safeParse schemas (req w)),
      w\<lparr>calls := calls w @ map (\<lambda>s. SafeParse s (field_of (req w) s)) (configured schemas)\<rparr>)"
  using assms
  by (auto simp add: validateRequest_check_def validateRequest_params_def validateRequest_query_def
      validateRequest_body_def andThen_def called_def vocabulary Let_def
      split: option.splits SafeParseReturn.splits)

lemma validateRequestAsync_check_accumulates:
  assumes "\<not> truthy (throwErrors options) \<or> failed_slots safeParseAsync schemas (req w) = []"
  shows "validateRequestAsync_check schemas options w =
     (Inr (failed_slots safeParseAsync schemas (req w)),
      w\<lparr>calls := calls w @ map (\<lambda>s. SafeParseAsync s (field_of (req w) s)) (configured schemas)\<rparr>)"
  using assms
  by (auto simp add: validateRequestAsync_check_def validateRequestAsync_params_def validateRequestAsync_query_def
      validateRequestAsync_body_def andThen_def called_def vocabulary Let_def
      split: option.splits SafeParseReturn.splits)


lemma sendErrors_body: "map (\<lambda>error. \<lparr>type = type error, errors = errors error\<rparr>) errs = errs"
  by (induction errs) simp_all

lemma failed_slots_types:
  "map type (failed_slots parse schemas r) = filter (\<lambda>s. slot_fails parse schemas r s \<noteq> None) [Params, Query, Body]"
  by (simp add: failed_slots_def failed_item_def split: option.splits)

lemma failed_slots_errors:
  "item \<in> set (failed_slots parse schemas r) \<Longrightarrow> slot_fails parse schemas r (type item) = Some (errors item)"
  by (auto simp add: failed_slots_def failed_item_def split: option.splits)

lemmas entry_points = processRequest_def processRequestAsync_def validateRequest_def validateRequestAsync_def
  processRequest_middleware_def processRequestAsync_middleware_def validateRequest_middleware_def
  validateRequestAsync_middleware_def async_def andThen_def

lemmas checks = processRequest_check_def processRequest_params_def processRequest_query_def processRequest_body_def 
  processRequestAsync_check_def processRequestAsync_params_def processRequestAsync_query_def processRequestAsync_body_def 
  validateRequest_check_def validateRequest_params_def validateRequest_query_def validateRequest_body_def 
  validateRequestAsync_check_def validateRequestAsync_params_def validateRequestAsync_query_def validateRequestAsync_body_def

lemmas responders = processRequest_respond_def processRequestAsync_respond_def validateRequest_respond_def
  validateRequestAsync_respond_def call_next_def call_sendErrors_def call_callback_def called_def
  sendErrors_def send_def status_def

lemma parsed_slots_append [simp]: "parsed_slots (xs @ ys) = parsed_slots xs @ parsed_slots ys"
  by (simp add: parsed_slots_def)

lemma parsed_slots_Nil [simp]: "parsed_slots [] = []"
  by (simp add: parsed_slots_def)

lemma parsed_slots_Cons [simp]: "parsed_slots (c # cs) = call_slot c @ parsed_slots cs"
  by (simp add: parsed_slots_def)

lemma parsed_slots_SafeParse [simp]: "parsed_slots (map (\<lambda>s. SafeParse s (f s)) ss) = ss"
  by (induction ss) simp_all

lemma parsed_slots_SafeParseAsync [simp]: "parsed_slots (map (\<lambda>s. SafeParseAsync s (f s)) ss) = ss"
  by (induction ss) simp_all

lemma next_calls_append [simp]: "next_calls (xs @ ys) = next_calls xs @ next_calls ys"
  by (simp add: next_calls_def)

lemma next_calls_Nil [simp]: "next_calls [] = []"
  by (simp add: next_calls_def)

lemma next_calls_Cons [simp]: "next_calls (c # cs) = call_next_arg c @ next_calls cs"
  by (simp add: next_calls_def)

lemma next_calls_SafeParse [simp]: "next_calls (map (\<lambda>s. SafeParse s (f s)) ss) = []"
  by (induction ss) simp_all

lemma next_calls_SafeParseAsync [simp]: "next_calls (map (\<lambda>s. SafeParseAsync s (f s)) ss) = []"
  by (induction ss) simp_all

lemma processed_field_unchanged:
  "schema_of schemas s = None \<or> slot_fails parse schemas r s \<noteq> None \<Longrightarrow>
   processed_field parse schemas r s = field_of r s"
  by (auto simp add: processed_field_def slot_fails_def split: option.splits SafeParseReturn.splits)

lemma processRequest_check_throws:
  assumes "truthy (throwErrors options)"
  shows "processRequest_check schemas options w =
     (case slot_fails safeParse schemas (req w) Params of
        Some e \<Rightarrow> (Inl (InvalidParamsError e), w\<lparr>calls := calls w @ [SafeParse Params (req_params (req w))]\<rparr>)
      | None \<Rightarrow>
          (case slot_fails safeParse schemas (req w) Query of
             Some e \<Rightarrow>
               (Inl (InvalidQueryError e),
                w\<lparr>req := (req w)\<lparr>req_params := processed_field safeParse schemas (req w) Params\<rparr>,
                  calls := calls w @ map (\<lambda>s. SafeParse s (field_of (req w) s))
                                      (filter (\<lambda>s. schema_of schemas s \<noteq> None) [Params, Query])\<rparr>)
           | None \<Rightarrow>
               (case slot_fails safeParse schemas (req w) Body of
                  Some e \<Rightarrow>
                    (Inl (InvalidBodyError e),
                     w\<lparr>req := (req w)\<lparr>req_params := processed_field safeParse schemas (req w) Params,
                                      req_query := processed_field safeParse schemas (req w) Query\<rparr>,
                       calls := calls w @ map (\<lambda>s. SafeParse s (field_of (req w) s)) (configured schemas)\<rparr>)
                | None \<Rightarrow>
                    (Inr [],
                     w\<lparr>req := \<lparr>req_params = processed_field safeParse schemas (req w) Params,
                                req_query = processed_field safeParse schemas (req w) Query,
                                req_body = processed_field safeParse schemas (req w) Body\<rparr>,
                       calls := calls w @ map (\<lambda>s. SafeParse s (field_of (req w) s)) (configured schemas)\<rparr>))))"
  using assms
  by (auto simp add: processRequest_check_def processRequest_params_def processRequest_query_def
      processRequest_body_def andThen_def called_def vocabulary Let_def
      split: option.splits SafeParseReturn.splits)

lemma processRequestAsync_check_throws:
  assumes "truthy (throwErrors options)"
  shows "processRequestAsync_check schemas options w =
     (case slot_fails safeParseAsync schemas (req w) Params of
        Some e \<Rightarrow> (Inl (InvalidParamsError e), w\<lparr>calls := calls w @ [SafeParseAsync Params (req_params (req w))]\<rparr>)
      | None \<Rightarrow>
          (case slot_fails safeParseAsync schemas (req w) Query of
             Some e \<Rightarrow>
               (Inl (InvalidQueryError e),
                w\<lparr>req := (req w)\<lparr>req_params := processed_field safeParseAsync schemas (req w) Params\<rparr>,
                  calls := calls w @ map (\<lambda>s. SafeParseAsync s (field_of (req w) s))
                                      (filter (\<lambda>s. schema_of schemas s \<noteq> None) [Params, Query])\<rparr>)
           | None \<Rightarrow>
               (case slot_fails safeParseAsync schemas (req w) Body of
                  Some e \<Rightarrow>
                    (Inl (InvalidBodyError e),
                     w\<lparr>req := (req w)\<lparr>req_params := processed_field safeParseAsync schemas (req w) Params,
                                      req_query := processed_field safeParseAsync schemas (req w) Query\<rparr>,
                       calls := calls w @ map (\<lambda>s. SafeParseAsync s (field_of (req w) s)) (configured schemas)\<rparr>)
                | None \<Rightarrow>
                    (Inr [],
                     w\<lparr>req := \<lparr>req_params = processed_field safeParseAsync schemas (req w) Params,
                                req_query = processed_field safeParseAsync schemas (req w) Query,
                                req_body = processed_field safeParseAsync schemas (req w) Body\<rparr>,
                       calls := calls w @ map (\<lambda>s. SafeParseAsync s (field_of (req w) s)) (configured schemas)\<rparr>))))"
  using assms
  by (auto simp add: processRequestAsync_check_def processRequestAsync_params_def processRequestAsync_query_def
      processRequestAsync_body_def andThen_def called_def vocabulary Let_def
      split: option.splits SafeParseReturn.splits)

lemma validateRequest_check_throws:
  assumes "truthy (throwErrors options)"
  shows "validateRequest_check schemas options w =
     (case slot_fails safeParse schemas (req w) Params of
        Some e \<Rightarrow> (Inl (InvalidParamsError e), w\<lparr>calls := calls w @ [SafeParse Params (req_params (req w))]\<rparr>)
      | None \<Rightarrow>
          (case slot_fails safeParse schemas (req w) Query of
             Some e \<Rightarrow>
               (Inl (InvalidQueryError e),
                w\<lparr>calls := calls w @ map (\<lambda>s. SafeParse s (field_of (req w) s))
                                      (filter (\<lambda>s. schema_of schemas s \<noteq> None) [Params, Query])\<rparr>)
           | None \<Rightarrow>
               (case slot_fails safeParse schemas (req w) Body of
                  Some e \<Rightarrow>
                    (Inl (InvalidBodyError e),
                     w\<lparr>calls := calls w @ map (\<lambda>s. SafeParse s (field_of (req w) s)) (configured schemas)\<rparr>)
                | None \<Rightarrow>
                    (Inr [],
                     w\<lparr>calls := calls w @ map (\<lambda>s. SafeParse s (field_of (req w) s)) (configured schemas)\<rparr>))))"
  using assms
  by (auto simp add: validateRequest_check_def validateRequest_params_def validateRequest_query_def
      validateRequest_body_def andThen_def called_def vocabulary Let_def
      split: option.splits SafeParseReturn.splits)

lemma validateRequestAsync_check_throws:
  assumes "truthy (throwErrors options)"
  shows "validateRequestAsync_check schemas options w =
     (case slot_fails safeParseAsync schemas (req w) Params of
        Some e \<Rightarrow> (Inl (InvalidParamsError e), w\<lparr>calls := calls w @ [SafeParseAsync Params (req_params (req w))]\<rparr>)
      | None \<Rightarrow>
          (case slot_fails safeParseAsync schemas (req w) Query of
             Some e \<Rightarrow>
               (Inl (InvalidQueryError e),
                w\<lparr>calls := calls w @ map (\<lambda>s. SafeParseAsync s (field_of (req w) s))
                                      (filter (\<lambda>s. schema_of schemas s \<noteq> None) [Params, Query])\<rparr>)
           | None \<Rightarrow>
               (case slot_fails safeParseAsync schemas (req w) Body of
                  Some e \<Rightarrow>
                    (Inl (InvalidBodyError e),
                     w\<lparr>calls := calls w @ map (\<lambda>s. SafeParseAsync s (field_of (req w) s)) (configured schemas)\<rparr>)
                | None \<Rightarrow>
                    (Inr [],
                     w\<lparr>calls := calls w @ map (\<lambda>s. SafeParseAsync s (field_of (req w) s)) (configured schemas)\<rparr>))))"
  using assms
  by (auto simp add: validateRequestAsync_check_def validateRequestAsync_params_def validateRequestAsync_query_def
      validateRequestAsync_body_def andThen_def called_def vocabulary Let_def
      split: option.splits SafeParseReturn.splits)


lemma slot_fails_agree:
  "parses_agree schemas r \<Longrightarrow> slot_fails safeParseAsync schemas r s = slot_fails safeParse schemas r s"
  by (cases s) (auto simp add: parses_agree_def slot_fails_def split: option.splits)

lemma processed_field_agree:
  "parses_agree schemas r \<Longrightarrow> processed_field safeParseAsync schemas r s = processed_field safeParse schemas r s"
  by (cases s) (auto simp add: parses_agree_def processed_field_def split: option.splits)

lemma failed_slots_agree:
  "parses_agree schemas r \<Longrightarrow> failed_slots safeParseAsync schemas r = failed_slots safeParse schemas r"
  by (simp add: failed_slots_def failed_item_def slot_fails_agree)

lemma slot_fails_configured:
  "slot_fails parse schemas r s = Some e \<Longrightarrow> \<exists>schema. schema_of schemas s = Some schema"
  by (simp add: slot_fails_def split: option.splits)

lemmas examples = example_schemas_def query_only_def example_world_def example_request_def nonEmpty_def toLength_def
      custom_options_def forward_options_def throw_options_def

section \<open>The claims\<close>

subsection \<open>C1: a custom \<^verbatim>\<open>sendErrors\<close> callback replaces the built-in responder\<close>

text \<open>
  C1 says that, when a slot fails, \<^verbatim>\<open>throwErrors\<close> and \<^verbatim>\<open>passErrorToNext\<close> are off and
  \<^verbatim>\<open>options.sendErrors\<close> is given, each combined entry point calls that callback with the
  accumulated errors and the response, and not the built-in responder. The run below has
  such a request (Params and Body fail) and the callback \<open>reject422\<close>.
  \<^verbatim>\<open>validateRequest\<close> and \<^verbatim>\<open>validateRequestAsync\<close> call the callback: the response is the 422
  it writes. \<^verbatim>\<open>processRequest\<close> and \<^verbatim>\<open>processRequestAsync\<close> test \<^verbatim>\<open>options.sendErrors\<close> and
  then call the built-in \<^verbatim>\<open>sendErrors\<close> in both branches (index.ts lines 215-218 and
  272-275): the callback is never called and the response is the built-in 400.
\<close>

theorem processRequest_ignores_custom_sendErrors:
  "new_calls example_world (snd (processRequest example_schemas (Some custom_options) example_world)) =
     [SafeParse Params (JString []), SafeParse Query (JString ''abc''), SafeParse Body (JNumber 7),
      SendErrors [\<lparr>type = Params, errors = ''too_small''\<rparr>, \<lparr>type = Body, errors = ''invalid_type''\<rparr>]] \<and>
   res (snd (processRequest example_schemas (Some custom_options) example_world)) =
     \<lparr>statusCode = 400, sent = Some (ErrorItems [\<lparr>type = Params, errors = ''too_small''\<rparr>, \<lparr>type = Body, errors = ''invalid_type''\<rparr>])\<rparr> \<and>
   new_calls example_world (snd (processRequestAsync example_schemas (Some custom_options) example_world)) =
     [SafeParseAsync Params (JString []), SafeParseAsync Query (JString ''abc''), SafeParseAsync Body (JNumber 7),
      SendErrors [\<lparr>type = Params, errors = ''too_small''\<rparr>, \<lparr>type = Body, errors = ''invalid_type''\<rparr>]] \<and>
   res (snd (processRequestAsync example_schemas (Some custom_options) example_world)) =
     \<lparr>statusCode = 400, sent = Some (ErrorItems [\<lparr>type = Params, errors = ''too_small''\<rparr>, \<lparr>type = Body, errors = ''invalid_type''\<rparr>])\<rparr> \<and>
   new_calls example_world (snd (validateRequest example_schemas (Some custom_options) example_world)) =
     [SafeParse Params (JString []), SafeParse Query (JString ''abc''), SafeParse Body (JNumber 7),
      OptionsSendErrors [\<lparr>type = Params, errors = ''too_small''\<rparr>, \<lparr>type = Body, errors = ''invalid_type''\<rparr>]] \<and>
   res (snd (validateRequest example_schemas (Some custom_options) example_world)) =
     \<lparr>statusCode = 422, sent = Some (Value (JString ''rejected''))\<rparr> \<and>
   new_calls example_world (snd (validateRequestAsync example_schemas (Some custom_options) example_world)) =
     [SafeParseAsync Params (JString []), SafeParseAsync Query (JString ''abc''), SafeParseAsync Body (JNumber 7),
      OptionsSendErrors [\<lparr>type = Params, errors = ''too_small''\<rparr>, \<lparr>type = Body, errors = ''invalid_type''\<rparr>]] \<and>
   res (snd (validateRequestAsync example_schemas (Some custom_options) example_world)) =
     \<lparr>statusCode = 422, sent = Some (Value (JString ''rejected''))\<rparr>"
  by (simp add: entry_points responders checks new_calls_def defaultOptions_def truthy_def examples)

subsection \<open>C2: when every configured slot succeeds\<close>

text \<open>
  C2 as stated says that, when every configured slot succeeds, every entry point leaves
  each slot's request field equal to the schema's output. \<^verbatim>\<open>validateRequest\<close> never
  assigns a request field (index.ts lines 332-361): with the schema \<open>toLength\<close> on the
  query, whose parse of \<^verbatim>\<open>"abc"\<close> succeeds with the output 3, the query of the request is
  still \<^verbatim>\<open>"abc"\<close> after the run.
\<close>

theorem validateRequest_keeps_raw_input:
  "failed_slots safeParse query_only (req example_world) = [] \<and>
   safeParse toLength (req_query (req example_world)) = SafeParseSuccess (JNumber 3) \<and>
   req_query (req (snd (validateRequest query_only None example_world))) = JString ''abc'' \<and>
   req_query (req (snd (validateRequest query_only None example_world))) \<noteq> JNumber 3"
  by (simp add: entry_points responders checks defaultOptions_def truthy_def vocabulary examples)

text \<open>
  C2, amended: when no configured slot fails, whatever the options, every combined entry
  point returns without raising after parsing the configured slots in order and calling
  \<^verbatim>\<open>next()\<close> once with no argument, and writes no response. \<^verbatim>\<open>processRequest\<close> and
  \<^verbatim>\<open>processRequestAsync\<close> leave in each configured slot's field the output of its schema
  (and the other fields unchanged); \<^verbatim>\<open>validateRequest\<close> and \<^verbatim>\<open>validateRequestAsync\<close> leave
  the whole request unchanged.
\<close>

theorem all_slots_succeed:
  "(failed_slots safeParse schemas (req w) = [] \<longrightarrow>
      processRequest schemas opts w =
        (Inr (),
         w\<lparr>req := \<lparr>req_params = processed_field safeParse schemas (req w) Params,
                    req_query = processed_field safeParse schemas (req w) Query,
                    req_body = processed_field safeParse schemas (req w) Body\<rparr>,
           calls := calls w @ map (\<lambda>s. SafeParse s (field_of (req w) s)) (configured schemas) @ [Next None]\<rparr>)) \<and>
   (failed_slots safeParseAsync schemas (req w) = [] \<longrightarrow>
      processRequestAsync schemas opts w =
        (Fulfilled,
         w\<lparr>req := \<lparr>req_params = processed_field safeParseAsync schemas (req w) Params,
                    req_query = processed_field safeParseAsync schemas (req w) Query,
                    req_body = processed_field safeParseAsync schemas (req w) Body\<rparr>,
           calls := calls w @ map (\<lambda>s. SafeParseAsync s (field_of (req w) s)) (configured schemas) @ [Next None]\<rparr>)) \<and>
   (failed_slots safeParse schemas (req w) = [] \<longrightarrow>
      validateRequest schemas opts w =
        (Inr (), w\<lparr>calls := calls w @ map (\<lambda>s. SafeParse s (field_of (req w) s)) (configured schemas) @ [Next None]\<rparr>)) \<and>
   (failed_slots safeParseAsync schemas (req w) = [] \<longrightarrow>
      validateRequestAsync schemas opts w =
        (Fulfilled, w\<lparr>calls := calls w @ map (\<lambda>s. SafeParseAsync s (field_of (req w) s)) (configured schemas) @ [Next None]\<rparr>))"
  by (simp add: entry_points responders
      processRequest_check_accumulates processRequestAsync_check_accumulates
      validateRequest_check_accumulates validateRequestAsync_check_accumulates)

theorem all_slots_succeed_witness:
  "failed_slots safeParse query_only (req example_world) = [] \<and>
   failed_slots safeParseAsync query_only (req example_world) = [] \<and>
   processRequest query_only (Some throw_options) example_world =
     (Inr (), example_world\<lparr>req := \<lparr>req_params = JString [], req_query = JNumber 3, req_body = JNumber 7\<rparr>,
                calls := [SafeParse Query (JString ''abc''), Next None]\<rparr>) \<and>
   processRequestAsync query_only (Some throw_options) example_world =
     (Fulfilled, example_world\<lparr>req := \<lparr>req_params = JString [], req_query = JNumber 3, req_body = JNumber 7\<rparr>,
                calls := [SafeParseAsync Query (JString ''abc''), Next None]\<rparr>) \<and>
   validateRequest query_only (Some throw_options) example_world =
     (Inr (), example_world\<lparr>calls := [SafeParse Query (JString ''abc''), Next None]\<rparr>) \<and>
   validateRequestAsync query_only (Some throw_options) example_world =
     (Fulfilled, example_world\<lparr>calls := [SafeParseAsync Query (JString ''abc''), Next None]\<rparr>)"
  using all_slots_succeed [where schemas = query_only and opts = "Some throw_options" and w = example_world]
  by (simp add: vocabulary examples)

subsection \<open>C3: \<^verbatim>\<open>throwErrors\<close> raises at the first failing slot\<close>

text \<open>
  C3: with \<^verbatim>\<open>throwErrors\<close> truthy, every combined entry point meets \<open>throwErrors_contract\<close>:
  if the params schema is configured and fails, \<^verbatim>\<open>InvalidParamsError\<close> with the native
  error is raised and neither the query nor the body schema is parsed; otherwise, if the
  query schema is configured and fails, \<^verbatim>\<open>InvalidQueryError\<close> is raised and the body schema
  is not parsed; otherwise, if the body schema is configured and fails,
  \<^verbatim>\<open>InvalidBodyError\<close> is raised; and if no configured slot fails, the run returns and has
  called \<^verbatim>\<open>next()\<close> once with no argument. For the asynchronous entry points the raise is
  the rejection of the promise they return.
\<close>

theorem throwErrors_raises_first_failure:
  assumes "truthy (throwErrors (defaultOptions opts))"
  shows "(throwErrors_contract safeParse schemas (req w) (fst (processRequest schemas opts w))
       (new_calls w (snd (processRequest schemas opts w)))) \<and>
    (throwErrors_contract safeParseAsync schemas (req w) (settled (fst (processRequestAsync schemas opts w)))
       (new_calls w (snd (processRequestAsync schemas opts w)))) \<and>
    (throwErrors_contract safeParse schemas (req w) (fst (validateRequest schemas opts w))
       (new_calls w (snd (validateRequest schemas opts w)))) \<and>
    (throwErrors_contract safeParseAsync schemas (req w) (settled (fst (validateRequestAsync schemas opts w)))
       (new_calls w (snd (validateRequestAsync schemas opts w))))"
  using assms
  by (simp add: throwErrors_contract_def entry_points responders new_calls_def configured_def
      processRequest_check_throws processRequestAsync_check_throws
      validateRequest_check_throws validateRequestAsync_check_throws
      split: option.splits)

theorem throwErrors_raises_first_failure_witness:
  "truthy (throwErrors (defaultOptions (Some throw_options))) \<and>
   slot_fails safeParse example_schemas (req example_world) Params = Some ''too_small'' \<and>
   slot_fails safeParseAsync example_schemas (req example_world) Params = Some ''too_small'' \<and>
   fst (processRequest example_schemas (Some throw_options) example_world) = Inl (InvalidParamsError ''too_small'') \<and>
   settled (fst (processRequestAsync example_schemas (Some throw_options) example_world)) =
     Inl (InvalidParamsError ''too_small'') \<and>
   fst (validateRequest example_schemas (Some throw_options) example_world) = Inl (InvalidParamsError ''too_small'') \<and>
   settled (fst (validateRequestAsync example_schemas (Some throw_options) example_world)) =
     Inl (InvalidParamsError ''too_small'') \<and>
   Query \<notin> set (parsed_slots (new_calls example_world (snd (processRequest example_schemas (Some throw_options) example_world)))) \<and>
   Body \<notin> set (parsed_slots (new_calls example_world (snd (processRequest example_schemas (Some throw_options) example_world)))) \<and>
   Query \<notin> set (parsed_slots (new_calls example_world (snd (processRequestAsync example_schemas (Some throw_options) example_world)))) \<and>
   Body \<notin> set (parsed_slots (new_calls example_world (snd (processRequestAsync example_schemas (Some throw_options) example_world)))) \<and>
   Query \<notin> set (parsed_slots (new_calls example_world (snd (validateRequest example_schemas (Some throw_options) example_world)))) \<and>
   Body \<notin> set (parsed_slots (new_calls example_world (snd (validateRequest example_schemas (Some throw_options) example_world)))) \<and>
   Query \<notin> set (parsed_slots (new_calls example_world (snd (validateRequestAsync example_schemas (Some throw_options) example_world)))) \<and>
   Body \<notin> set (parsed_slots (new_calls example_world (snd (validateRequestAsync example_schemas (Some throw_options) example_world))))"
  using throwErrors_raises_first_failure [where opts = "Some throw_options" and schemas = example_schemas and w = example_world]
  by (simp add: throwErrors_contract_def defaultOptions_def truthy_def vocabulary examples)

subsection \<open>C4: the default failure response\<close>

text \<open>
  C4: when at least one configured slot fails, \<^verbatim>\<open>throwErrors\<close> and \<^verbatim>\<open>passErrorToNext\<close> are
  falsy and no custom \<^verbatim>\<open>sendErrors\<close> is given, every combined entry point leaves the
  response with status 400 and, as its body, the failed-slot list: one
  \<^verbatim>\<open>{type, errors}\<close> entry per failed slot, in the order Params, Query, Body, with the
  slot's native error. By \<open>failed_slots_types\<close> the list has exactly the slots that have
  a schema which fails.
\<close>

theorem default_failure_response:
  assumes "\<not> truthy (throwErrors (defaultOptions opts))"
    and "\<not> truthy (passErrorToNext (defaultOptions opts))"
    and "Options.sendErrors (defaultOptions opts) = None"
  shows "(failed_slots safeParse schemas (req w) \<noteq> [] \<longrightarrow>
       res (snd (processRequest schemas opts w)) =
         \<lparr>statusCode = 400, sent = Some (ErrorItems (failed_slots safeParse schemas (req w)))\<rparr>) \<and>
    (failed_slots safeParseAsync schemas (req w) \<noteq> [] \<longrightarrow>
       res (snd (processRequestAsync schemas opts w)) =
         \<lparr>statusCode = 400, sent = Some (ErrorItems (failed_slots safeParseAsync schemas (req w)))\<rparr>) \<and>
    (failed_slots safeParse schemas (req w) \<noteq> [] \<longrightarrow>
       res (snd (validateRequest schemas opts w)) =
         \<lparr>statusCode = 400, sent = Some (ErrorItems (failed_slots safeParse schemas (req w)))\<rparr>) \<and>
    (failed_slots safeParseAsync schemas (req w) \<noteq> [] \<longrightarrow>
       res (snd (validateRequestAsync schemas opts w)) =
         \<lparr>statusCode = 400, sent = Some (ErrorItems (failed_slots safeParseAsync schemas (req w)))\<rparr>)"
  using assms
  by (simp add: entry_points responders sendErrors_body
      processRequest_check_accumulates processRequestAsync_check_accumulates
      validateRequest_check_accumulates validateRequestAsync_check_accumulates)

theorem default_failure_response_witness:
  "\<not> truthy (throwErrors (defaultOptions (None :: (json, string) Options option))) \<and>
   \<not> truthy (passErrorToNext (defaultOptions (None :: (json, string) Options option))) \<and>
   Options.sendErrors (defaultOptions (None :: (json, string) Options option)) = None \<and>
   failed_slots safeParse example_schemas (req example_world) = [\<lparr>type = Params, errors = ''too_small''\<rparr>, \<lparr>type = Body, errors = ''invalid_type''\<rparr>] \<and>
   failed_slots safeParseAsync example_schemas (req example_world) = [\<lparr>type = Params, errors = ''too_small''\<rparr>, \<lparr>type = Body, errors = ''invalid_type''\<rparr>] \<and>
   res (snd (processRequest example_schemas None example_world)) =
     \<lparr>statusCode = 400, sent = Some (ErrorItems [\<lparr>type = Params, errors = ''too_small''\<rparr>, \<lparr>type = Body, errors = ''invalid_type''\<rparr>])\<rparr> \<and>
   res (snd (processRequestAsync example_schemas None example_world)) =
     \<lparr>statusCode = 400, sent = Some (ErrorItems [\<lparr>type = Params, errors = ''too_small''\<rparr>, \<lparr>type = Body, errors = ''invalid_type''\<rparr>])\<rparr> \<and>
   res (snd (validateRequest example_schemas None example_world)) =
     \<lparr>statusCode = 400, sent = Some (ErrorItems [\<lparr>type = Params, errors = ''too_small''\<rparr>, \<lparr>type = Body, errors = ''invalid_type''\<rparr>])\<rparr> \<and>
   res (snd (validateRequestAsync example_schemas None example_world)) =
     \<lparr>statusCode = 400, sent = Some (ErrorItems [\<lparr>type = Params, errors = ''too_small''\<rparr>, \<lparr>type = Body, errors = ''invalid_type''\<rparr>])\<rparr>"
  using default_failure_response [where opts = None and schemas = example_schemas and w = example_world]
  by (simp add: defaultOptions_def truthy_def vocabulary examples)

subsection \<open>C5: forwarding the errors to the continuation\<close>

text \<open>
  C5: when \<^verbatim>\<open>passErrorToNext\<close> is truthy, \<^verbatim>\<open>throwErrors\<close> is falsy and at least one
  configured slot fails, every combined entry point calls \<^verbatim>\<open>next\<close> exactly once, with one
  argument, the failed-slot list in the order Params, Query, Body, and leaves the
  response as it was.
\<close>

theorem forwards_errors_to_next:
  assumes "truthy (passErrorToNext (defaultOptions opts))"
    and "\<not> truthy (throwErrors (defaultOptions opts))"
  shows "(failed_slots safeParse schemas (req w) \<noteq> [] \<longrightarrow>
       next_calls (new_calls w (snd (processRequest schemas opts w))) = [Some (failed_slots safeParse schemas (req w))] \<and>
       res (snd (processRequest schemas opts w)) = res w) \<and>
    (failed_slots safeParseAsync schemas (req w) \<noteq> [] \<longrightarrow>
       next_calls (new_calls w (snd (processRequestAsync schemas opts w))) = [Some (failed_slots safeParseAsync schemas (req w))] \<and>
       res (snd (processRequestAsync schemas opts w)) = res w) \<and>
    (failed_slots safeParse schemas (req w) \<noteq> [] \<longrightarrow>
       next_calls (new_calls w (snd (validateRequest schemas opts w))) = [Some (failed_slots safeParse schemas (req w))] \<and>
       res (snd (validateRequest schemas opts w)) = res w) \<and>
    (failed_slots safeParseAsync schemas (req w) \<noteq> [] \<longrightarrow>
       next_calls (new_calls w (snd (validateRequestAsync schemas opts w))) = [Some (failed_slots safeParseAsync schemas (req w))] \<and>
       res (snd (validateRequestAsync schemas opts w)) = res w)"
  using assms
  by (simp add: entry_points responders new_calls_def
      processRequest_check_accumulates processRequestAsync_check_accumulates
      validateRequest_check_accumulates validateRequestAsync_check_accumulates)

theorem forwards_errors_to_next_witness:
  "truthy (passErrorToNext (defaultOptions (Some forward_options))) \<and>
   \<not> truthy (throwErrors (defaultOptions (Some forward_options))) \<and>
   failed_slots safeParse example_schemas (req example_world) \<noteq> [] \<and>
   failed_slots safeParseAsync example_schemas (req example_world) \<noteq> [] \<and>
   next_calls (new_calls example_world (snd (processRequest example_schemas (Some forward_options) example_world))) =
     [Some [\<lparr>type = Params, errors = ''too_small''\<rparr>, \<lparr>type = Body, errors = ''invalid_type''\<rparr>]] \<and>
   res (snd (processRequest example_schemas (Some forward_options) example_world)) = \<lparr>statusCode = 200, sent = None\<rparr> \<and>
   next_calls (new_calls example_world (snd (processRequestAsync example_schemas (Some forward_options) example_world))) =
     [Some [\<lparr>type = Params, errors = ''too_small''\<rparr>, \<lparr>type = Body, errors = ''invalid_type''\<rparr>]] \<and>
   res (snd (processRequestAsync example_schemas (Some forward_options) example_world)) = \<lparr>statusCode = 200, sent = None\<rparr> \<and>
   next_calls (new_calls example_world (snd (validateRequest example_schemas (Some forward_options) example_world))) =
     [Some [\<lparr>type = Params, errors = ''too_small''\<rparr>, \<lparr>type = Body, errors = ''invalid_type''\<rparr>]] \<and>
   res (snd (validateRequest example_schemas (Some forward_options) example_world)) = \<lparr>statusCode = 200, sent = None\<rparr> \<and>
   next_calls (new_calls example_world (snd (validateRequestAsync example_schemas (Some forward_options) example_world))) =
     [Some [\<lparr>type = Params, errors = ''too_small''\<rparr>, \<lparr>type = Body, errors = ''invalid_type''\<rparr>]] \<and>
   res (snd (validateRequestAsync example_schemas (Some forward_options) example_world)) = \<lparr>statusCode = 200, sent = None\<rparr>"
  using forwards_errors_to_next [where opts = "Some forward_options" and schemas = example_schemas and w = example_world]
  by (simp add: defaultOptions_def truthy_def vocabulary examples)

subsection \<open>C6: without \<^verbatim>\<open>throwErrors\<close>, every configured slot is checked\<close>

text \<open>
  C6: when \<^verbatim>\<open>throwErrors\<close> is unset or false, the three slot blocks of every combined
  entry point complete with the accumulator equal to the failed-slot list of the
  request (every failure is recorded, whatever the earlier slots did), and the slots
  parsed by the middleware are all the configured slots, in the order Params, Query,
  Body.
\<close>

theorem every_slot_checked:
  assumes "\<not> truthy (throwErrors (defaultOptions opts))"
  shows "(fst (processRequest_check schemas (defaultOptions opts) w) = Inr (failed_slots safeParse schemas (req w)) \<and>
       parsed_slots (new_calls w (snd (processRequest schemas opts w))) = configured schemas) \<and>
    (fst (processRequestAsync_check schemas (defaultOptions opts) w) = Inr (failed_slots safeParseAsync schemas (req w)) \<and>
       parsed_slots (new_calls w (snd (processRequestAsync schemas opts w))) = configured schemas) \<and>
    (fst (validateRequest_check schemas (defaultOptions opts) w) = Inr (failed_slots safeParse schemas (req w)) \<and>
       parsed_slots (new_calls w (snd (validateRequest schemas opts w))) = configured schemas) \<and>
    (fst (validateRequestAsync_check schemas (defaultOptions opts) w) = Inr (failed_slots safeParseAsync schemas (req w)) \<and>
       parsed_slots (new_calls w (snd (validateRequestAsync schemas opts w))) = configured schemas)"
  using assms
  by (simp add: entry_points responders new_calls_def
      processRequest_check_accumulates processRequestAsync_check_accumulates
      validateRequest_check_accumulates validateRequestAsync_check_accumulates
      split: option.splits)

theorem every_slot_checked_witness:
  "\<not> truthy (throwErrors (defaultOptions (None :: (json, string) Options option))) \<and>
   fst (processRequest_check example_schemas (defaultOptions None) example_world) = Inr [\<lparr>type = Params, errors = ''too_small''\<rparr>, \<lparr>type = Body, errors = ''invalid_type''\<rparr>] \<and>
   parsed_slots (new_calls example_world (snd (processRequest example_schemas None example_world))) = [Params, Query, Body] \<and>
   fst (processRequestAsync_check example_schemas (defaultOptions None) example_world) = Inr [\<lparr>type = Params, errors = ''too_small''\<rparr>, \<lparr>type = Body, errors = ''invalid_type''\<rparr>] \<and>
   parsed_slots (new_calls example_world (snd (processRequestAsync example_schemas None example_world))) = [Params, Query, Body] \<and>
   fst (validateRequest_check example_schemas (defaultOptions None) example_world) = Inr [\<lparr>type = Params, errors = ''too_small''\<rparr>, \<lparr>type = Body, errors = ''invalid_type''\<rparr>] \<and>
   parsed_slots (new_calls example_world (snd (validateRequest example_schemas None example_world))) = [Params, Query, Body] \<and>
   fst (validateRequestAsync_check example_schemas (defaultOptions None) example_world) = Inr [\<lparr>type = Params, errors = ''too_small''\<rparr>, \<lparr>type = Body, errors = ''invalid_type''\<rparr>] \<and>
   parsed_slots (new_calls example_world (snd (validateRequestAsync example_schemas None example_world))) = [Params, Query, Body]"
  using every_slot_checked [where opts = None and schemas = example_schemas and w = example_world]
  by (simp add: defaultOptions_def truthy_def vocabulary examples)

subsection \<open>C7: the asynchronous entry points follow the synchronous ones\<close>

text \<open>
  C7: if, for every configured schema, \<^verbatim>\<open>safeParseAsync\<close> and \<^verbatim>\<open>safeParse\<close> give the same
  result on the slot's field of the request, then \<^verbatim>\<open>processRequestAsync\<close> settles as
  \<^verbatim>\<open>processRequest\<close> completes (rejected with the error that the synchronous one throws,
  fulfilled when it returns), leaves the same request and the same response, and makes
  the same calls in the same order, the parse method apart; the same holds of
  \<^verbatim>\<open>validateRequestAsync\<close> and \<^verbatim>\<open>validateRequest\<close>. The slots are parsed one after the
  other in the order Params, Query, Body: the slots parsed are an initial part of the
  configured slots.
\<close>

theorem async_matches_sync:
  assumes "parses_agree schemas (req w)"
  shows "settled (fst (processRequestAsync schemas opts w)) = fst (processRequest schemas opts w) \<and>
    req (snd (processRequestAsync schemas opts w)) = req (snd (processRequest schemas opts w)) \<and>
    res (snd (processRequestAsync schemas opts w)) = res (snd (processRequest schemas opts w)) \<and>
    map sync_call (new_calls w (snd (processRequestAsync schemas opts w))) =
      new_calls w (snd (processRequest schemas opts w)) \<and>
    prefix (parsed_slots (new_calls w (snd (processRequestAsync schemas opts w)))) (configured schemas) \<and>
    settled (fst (validateRequestAsync schemas opts w)) = fst (validateRequest schemas opts w) \<and>
    req (snd (validateRequestAsync schemas opts w)) = req (snd (validateRequest schemas opts w)) \<and>
    res (snd (validateRequestAsync schemas opts w)) = res (snd (validateRequest schemas opts w)) \<and>
    map sync_call (new_calls w (snd (validateRequestAsync schemas opts w))) =
      new_calls w (snd (validateRequest schemas opts w)) \<and>
    prefix (parsed_slots (new_calls w (snd (validateRequestAsync schemas opts w)))) (configured schemas)"
proof (cases "truthy (throwErrors (defaultOptions opts))")
  case True
  with assms show ?thesis
    by (auto simp add: entry_points responders new_calls_def configured_def
        slot_fails_agree processed_field_agree failed_slots_agree
        processRequest_check_throws processRequestAsync_check_throws
      validateRequest_check_throws validateRequestAsync_check_throws
        dest: slot_fails_configured split: option.splits)
next
  case False
  with assms show ?thesis
    by (simp add: entry_points responders new_calls_def
        slot_fails_agree processed_field_agree failed_slots_agree
        processRequest_check_accumulates processRequestAsync_check_accumulates
      validateRequest_check_accumulates validateRequestAsync_check_accumulates
        split: option.splits)
qed

theorem async_matches_sync_witness:
  "parses_agree example_schemas (req example_world) \<and>
   settled (fst (processRequestAsync example_schemas None example_world)) = fst (processRequest example_schemas None example_world) \<and>
   req (snd (processRequestAsync example_schemas None example_world)) = req (snd (processRequest example_schemas None example_world)) \<and>
   res (snd (processRequestAsync example_schemas None example_world)) = res (snd (processRequest example_schemas None example_world)) \<and>
   map sync_call (new_calls example_world (snd (processRequestAsync example_schemas None example_world))) =
     new_calls example_world (snd (processRequest example_schemas None example_world)) \<and>
   prefix (parsed_slots (new_calls example_world (snd (processRequestAsync example_schemas None example_world)))) [Params, Query, Body] \<and>
   settled (fst (validateRequestAsync example_schemas None example_world)) = fst (validateRequest example_schemas None example_world) \<and>
   req (snd (validateRequestAsync example_schemas None example_world)) = req (snd (validateRequest example_schemas None example_world)) \<and>
   res (snd (validateRequestAsync example_schemas None example_world)) = res (snd (validateRequest example_schemas None example_world)) \<and>
   map sync_call (new_calls example_world (snd (validateRequestAsync example_schemas None example_world))) =
     new_calls example_world (snd (validateRequest example_schemas None example_world)) \<and>
   prefix (parsed_slots (new_calls example_world (snd (validateRequestAsync example_schemas None example_world)))) [Params, Query, Body]"
  using async_matches_sync [where opts = None and schemas = example_schemas and w = example_world]
  by (simp add: parses_agree_def vocabulary examples)

subsection \<open>C8: the single-purpose entry points\<close>

text \<open>
  C8: each single-purpose entry point (body, params, query; \<^verbatim>\<open>processRequest\<close> and
  \<^verbatim>\<open>validateRequest\<close>; synchronous and asynchronous) behaves, for every schema, options and
  request, as the corresponding combined entry point on the schema set that has only
  that slot.
\<close>

theorem single_purpose_entry_points:
  "processRequestBody schema opts w = processRequest \<lparr>params = None, query = None, body = Some schema\<rparr> opts w \<and>
   processRequestBodyAsync schema opts w = processRequestAsync \<lparr>params = None, query = None, body = Some schema\<rparr> opts w \<and>
   processRequestParams schema opts w = processRequest \<lparr>params = Some schema, query = None, body = None\<rparr> opts w \<and>
   processRequestParamsAsync schema opts w = processRequestAsync \<lparr>params = Some schema, query = None, body = None\<rparr> opts w \<and>
   processRequestQuery schema opts w = processRequest \<lparr>params = None, query = Some schema, body = None\<rparr> opts w \<and>
   processRequestQueryAsync schema opts w = processRequestAsync \<lparr>params = None, query = Some schema, body = None\<rparr> opts w \<and>
   validateRequestBody schema opts w = validateRequest \<lparr>params = None, query = None, body = Some schema\<rparr> opts w \<and>
   validateRequestBodyAsync schema opts w = validateRequestAsync \<lparr>params = None, query = None, body = Some schema\<rparr> opts w \<and>
   validateRequestParams schema opts w = validateRequest \<lparr>params = Some schema, query = None, body = None\<rparr> opts w \<and>
   validateRequestParamsAsync schema opts w = validateRequestAsync \<lparr>params = Some schema, query = None, body = None\<rparr> opts w \<and>
   validateRequestQuery schema opts w = validateRequest \<lparr>params = None, query = Some schema, body = None\<rparr> opts w \<and>
   validateRequestQueryAsync schema opts w = validateRequestAsync \<lparr>params = None, query = Some schema, body = None\<rparr> opts w"
  by (simp add: processRequestBody_def processRequestBodyAsync_def processRequestParams_def
      processRequestParamsAsync_def processRequestQuery_def processRequestQueryAsync_def
      validateRequestBody_def validateRequestBodyAsync_def validateRequestParams_def
      validateRequestParamsAsync_def validateRequestQuery_def validateRequestQueryAsync_def)

subsection \<open>C9: no slot configured\<close>

text \<open>
  C9: with no schema for params, query and body, for every request and every options
  value (also none), each combined entry point returns without raising, and the only
  thing it does is to call \<^verbatim>\<open>next()\<close> once with no argument: the request and the response
  are unchanged.
\<close>

theorem no_schema_configured:
  "processRequest \<lparr>params = None, query = None, body = None\<rparr> opts w = (Inr (), w\<lparr>calls := calls w @ [Next None]\<rparr>) \<and>
   processRequestAsync \<lparr>params = None, query = None, body = None\<rparr> opts w = (Fulfilled, w\<lparr>calls := calls w @ [Next None]\<rparr>) \<and>
   validateRequest \<lparr>params = None, query = None, body = None\<rparr> opts w = (Inr (), w\<lparr>calls := calls w @ [Next None]\<rparr>) \<and>
   validateRequestAsync \<lparr>params = None, query = None, body = None\<rparr> opts w = (Fulfilled, w\<lparr>calls := calls w @ [Next None]\<rparr>)"
  by (simp add: entry_points responders
      processRequest_check_def processRequest_params_def processRequest_query_def processRequest_body_def
      processRequestAsync_check_def processRequestAsync_params_def processRequestAsync_query_def
      processRequestAsync_body_def
      validateRequest_check_def validateRequest_params_def validateRequest_query_def validateRequest_body_def
      validateRequestAsync_check_def validateRequestAsync_params_def validateRequestAsync_query_def
      validateRequestAsync_body_def)

subsection \<open>C10: \<^verbatim>\<open>processRequest\<close> overwrites only the slots that parsed\<close>

text \<open>
  C10: for \<^verbatim>\<open>processRequest\<close> and \<^verbatim>\<open>processRequestAsync\<close> with \<^verbatim>\<open>throwErrors\<close> unset or
  false, the request field of a slot that has no schema, or whose schema fails, is
  after the run what it was before; so a field that changed belongs to a slot whose
  parse succeeded.
\<close>

theorem failed_slot_keeps_raw_value:
  assumes "\<not> truthy (throwErrors (defaultOptions opts))"
  shows "(schema_of schemas s = None \<or> slot_fails safeParse schemas (req w) s \<noteq> None \<longrightarrow>
       field_of (req (snd (processRequest schemas opts w))) s = field_of (req w) s) \<and>
    (schema_of schemas s = None \<or> slot_fails safeParseAsync schemas (req w) s \<noteq> None \<longrightarrow>
       field_of (req (snd (processRequestAsync schemas opts w))) s = field_of (req w) s)"
proof -
  have "field_of (req (snd (processRequest schemas opts w))) s = processed_field safeParse schemas (req w) s"
    using assms by (cases s) (simp_all add: entry_points responders field_of_def processRequest_check_accumulates
        split: option.splits)
  moreover have "field_of (req (snd (processRequestAsync schemas opts w))) s =
      processed_field safeParseAsync schemas (req w) s"
    using assms by (cases s) (simp_all add: entry_points responders field_of_def processRequestAsync_check_accumulates
        split: option.splits)
  ultimately show ?thesis
    by (simp add: processed_field_unchanged)
qed

theorem failed_slot_keeps_raw_value_witness:
  "\<not> truthy (throwErrors (defaultOptions (None :: (json, string) Options option))) \<and>
   slot_fails safeParse example_schemas (req example_world) Body \<noteq> None \<and>
   slot_fails safeParseAsync example_schemas (req example_world) Body \<noteq> None \<and>
   field_of (req (snd (processRequest example_schemas None example_world))) Body = JNumber 7 \<and>
   field_of (req (snd (processRequestAsync example_schemas None example_world))) Body = JNumber 7"
  using failed_slot_keeps_raw_value [where opts = None and schemas = example_schemas and w = example_world and s = Body]
  by (simp add: defaultOptions_def truthy_def vocabulary examples)

end
